theory Spec2Isabelle
  imports Main "HOL-Library.Word" "HOL-Library.Sublist" "HOL-Library.Code_Target_Nat"
begin

section \<open>Values exchanged by the relay\<close>

text \<open>
  JavaScript values as far as the handlers inspect them. A response body parsed by the
  HTTP client, and every object literal handed to \<^verbatim>\<open>res.json\<close>, is a \<open>jsval\<close>.
  An object keeps its members in the order of the source's literal.
\<close>

datatype jsval =
    JUndefined
  | JNull
  | JBool bool
  | JNum int
  | JStr string
  | JArr "jsval list"
  | JObj "(string \<times> jsval) list"

type_synonym bytes = "8 word list"

text \<open>What \<^verbatim>\<open>axios.post\<close> resolves with: \<^verbatim>\<open>response.status\<close> and \<^verbatim>\<open>response.data\<close>.\<close>

record axios_response =
  resp_status :: nat
  resp_data :: jsval

text \<open>
  The object caught by a \<^verbatim>\<open>catch (error)\<close>: the four properties the handlers read,
  \<^verbatim>\<open>error.message\<close>, \<^verbatim>\<open>error.code\<close>, \<^verbatim>\<open>error.response\<close> and (as a truth value)
  \<^verbatim>\<open>error.request\<close>. A property that is absent is \<open>None\<close> or \<open>False\<close>.
\<close>

record js_error =
  err_message :: string
  err_code :: "string option"
  err_response :: "axios_response option"
  err_request :: bool

text \<open>A plain exception of the runtime carries a message and nothing else.\<close>

definition plain_error :: "string \<Rightarrow> js_error" where
  "plain_error msg =
     \<lparr>err_message = msg, err_code = None, err_response = None, err_request = False\<rparr>"

text \<open>
  The source of a multipart part: \<^verbatim>\<open>req.file.buffer\<close>, or the stream returned by
  \<^verbatim>\<open>fs.createReadStream(path)\<close>. A stream is recorded with the path it was opened on
  and the content it yields (\<open>None\<close> when nothing exists at the path).
\<close>

datatype byte_source = Buffer bytes | ReadStream string "bytes option"

fun source_bytes :: "byte_source \<Rightarrow> bytes option" where
  "source_bytes (Buffer b) = Some b"
| "source_bytes (ReadStream p c) = c"

record form_part =
  part_field :: string
  part_source :: byte_source
  part_filename :: string

text \<open>A \<^verbatim>\<open>FormData\<close> instance: its boundary and the parts appended so far.\<close>

record form_data =
  boundary :: string
  parts :: "form_part list"

definition new_FormData :: "string \<Rightarrow> form_data" where
  "new_FormData b = \<lparr>boundary = b, parts = []\<rparr>"

definition append_part :: "form_data \<Rightarrow> string \<Rightarrow> byte_source \<Rightarrow> string \<Rightarrow> form_data" where
  "append_part fd field src fname =
     fd\<lparr>parts := parts fd @ [\<lparr>part_field = field, part_source = src, part_filename = fname\<rparr>]\<rparr>"

definition getHeaders :: "form_data \<Rightarrow> (string \<times> string) list" where
  "getHeaders fd = [(''content-type'', ''multipart/form-data; boundary='' @ boundary fd)]"

datatype post_data =
    Form form_data
  | UrlEncoded "(string \<times> string) list"

datatype limit = Infinity | Limit nat

text \<open>
  One call of \<^verbatim>\<open>axios.post(url, data, config)\<close>. An option the call does not pass is
  \<open>None\<close>; \<open>timeout\<close> is in milliseconds.
\<close>

record axios_request =
  url :: string
  data :: post_data
  headers :: "(string \<times> string) list"
  timeout :: "nat option"
  maxContentLength :: "limit option"
  maxBodyLength :: "limit option"

datatype payload = Json jsval | Html string

text \<open>What the client receives: the status line and the body.\<close>

record http_reply =
  rep_status :: nat
  rep_body :: payload

text \<open>\<^verbatim>\<open>res.status(n).json(v)\<close>; \<^verbatim>\<open>res.json(v)\<close> alone leaves the status at 200.\<close>

definition res_status_json :: "nat \<Rightarrow> jsval \<Rightarrow> http_reply" where
  "res_status_json n v = \<lparr>rep_status = n, rep_body = Json v\<rparr>"

definition res_json :: "jsval \<Rightarrow> http_reply" where
  "res_json v = res_status_json 200 v"

datatype multer_error = LIMIT_FILE_SIZE

text \<open>
  Everything outside the handlers that they consult: \<^verbatim>\<open>process.env\<close>, the outcome of
  an outbound \<^verbatim>\<open>axios.post\<close> (\<open>Inl\<close> a rejection, \<open>Inr\<close> a resolution), the boundary
  a fresh \<^verbatim>\<open>FormData\<close> draws, the runtime's \<^verbatim>\<open>JSON.stringify\<close>, and the answer of the
  framework's built-in error handler to an error passed to \<^verbatim>\<open>next\<close> (neither file
  registers an error-handling middleware of its own).
\<close>

record world =
  env :: "string \<rightharpoonup> string"
  axios_post :: "axios_request \<Rightarrow> js_error + axios_response"
  form_boundary :: string
  JSON_stringify :: "jsval \<Rightarrow> string"
  default_error_handler :: "multer_error \<Rightarrow> http_reply"

text \<open>
  A number inside a template literal, for a natural number below \<open>10\<^sup>2\<^sup>1\<close> (an HTTP
  status): its decimal digits.
\<close>

fun decimal :: "nat \<Rightarrow> string" where
  "decimal n =
     (if n < 10 then [char_of (48 + n)]
      else decimal (n div 10) @ [char_of (48 + n mod 10)])"

declare decimal.simps [simp del]

section \<open>The memory-buffered relay (server.js)\<close>

text \<open>\<^verbatim>\<open>req.file\<close> as multer fills it: the common part, then what each storage adds.\<close>

record multer_file =
  originalname :: string
  mimetype :: string
  file_size :: nat

record memory_file = multer_file +
  buffer :: bytes

record disk_file = multer_file +
  destination :: string
  filename :: string
  path :: string

text \<open>The result of one request: the reply and the outbound calls made, in order.\<close>

record relay_result =
  reply :: http_reply
  calls :: "axios_request list"

definition n8nUrl_memory :: string where
  "n8nUrl_memory =
     ''https://opticat.app.n8n.cloud/webhook/04d3ce21-08a5-4ac9-90a9-4fe11789804d''"

text \<open>The form and the options of the call in server.js.\<close>

definition memory_request :: "world \<Rightarrow> memory_file \<Rightarrow> axios_request" where
  "memory_request w f =
     (let formData = append_part (new_FormData (form_boundary w))
                       ''resume'' (Buffer (buffer f)) (originalname f)
      in \<lparr>url = n8nUrl_memory, data = Form formData, headers = getHeaders formData,
          timeout = Some 300000, maxContentLength = None, maxBodyLength = None\<rparr>)"

text \<open>The \<^verbatim>\<open>catch\<close> block of the handler in server.js.\<close>

definition memory_catch :: "js_error \<Rightarrow> http_reply" where
  "memory_catch error =
     (if err_code error = Some ''ECONNABORTED'' then
        res_status_json 504
          (JObj [(''error'', JStr ''Request timeout - server took too long to respond'')])
      else case err_response error of
        Some r \<Rightarrow>
          res_status_json 502
            (JObj [(''error'', JStr (''N8N Error: '' @ decimal (resp_status r))),
                   (''details'', resp_data r)])
      | None \<Rightarrow>
          if err_request error then
            res_status_json 503 (JObj [(''error'', JStr ''Cannot reach N8N service'')])
          else
            res_status_json 500 (JObj [(''error'', JStr (err_message error))]))"

text \<open>\<^verbatim>\<open>app.post("/api/upload", upload.single("resume"), async (req, res) => ...)\<close>\<close>

definition upload_memory :: "world \<Rightarrow> memory_file option \<Rightarrow> relay_result" where
  "upload_memory w file =
     (case file of
        None \<Rightarrow>
          \<lparr>reply = res_status_json 400 (JObj [(''error'', JStr ''File missing'')]),
           calls = []\<rparr>
      | Some f \<Rightarrow>
          (let rq = memory_request w f in
           case axios_post w rq of
             Inr response \<Rightarrow> \<lparr>reply = res_json (resp_data response), calls = [rq]\<rparr>
           | Inl error \<Rightarrow> \<lparr>reply = memory_catch error, calls = [rq]\<rparr>))"

section \<open>The disk-staged relay\<close>

type_synonym fs = "string \<rightharpoonup> bytes"

text \<open>
  The staging directory as the handler sees it: the content found at each path.
  \<^verbatim>\<open>fs.existsSync\<close>, and \<^verbatim>\<open>fs.createReadStream\<close>, whose stream yields what is at the path
  when the request is built.
\<close>

definition existsSync :: "fs \<Rightarrow> string \<Rightarrow> bool" where
  "existsSync files p = (files p \<noteq> None)"

definition createReadStream :: "fs \<Rightarrow> string \<Rightarrow> byte_source" where
  "createReadStream files p = ReadStream p (files p)"

text \<open>\<^verbatim>\<open>fs.unlinkSync\<close> throws when nothing exists at the path.\<close>

definition unlinkSync :: "fs \<Rightarrow> string \<Rightarrow> js_error + fs" where
  "unlinkSync files p =
     (if files p = None then
        Inl ((plain_error (''ENOENT: no such file or directory, unlink '' @ [CHR 0x27] @ p
                            @ [CHR 0x27]))
               \<lparr>err_code := Some ''ENOENT''\<rparr>)
      else Inr (files(p := None)))"

text \<open>
  The result of one request of the disk-staged relay: the reply, the outbound calls, the
  file system afterwards, and the paths handed to \<^verbatim>\<open>fs.unlinkSync\<close>, in order.
\<close>

record disk_result = relay_result +
  files_after :: fs
  unlinked :: "string list"

text \<open>
  \<^verbatim>\<open>if (filePath && fs.existsSync(filePath)) { fs.unlinkSync(filePath); }\<close>, on the file
  system and the log of unlink calls. \<open>filePath\<close> is \<^verbatim>\<open>req.file?.path\<close>: undefined
  (\<open>None\<close>) without a file, and falsy also when it is the empty string.
\<close>

definition cleanup :: "fs \<times> string list \<Rightarrow> string option \<Rightarrow> js_error + (fs \<times> string list)" where
  "cleanup st filePath =
     (case filePath of
        None \<Rightarrow> Inr st
      | Some p \<Rightarrow>
          if p \<noteq> [] \<and> existsSync (fst st) p then
            (case unlinkSync (fst st) p of
               Inl e \<Rightarrow> Inl e
             | Inr files' \<Rightarrow> Inr (files', snd st @ [p]))
          else Inr st)"

definition n8nUrl_disk :: string where
  "n8nUrl_disk =
     ''https://opticat.app.n8n.cloud/webhook-test/04d3ce21-08a5-4ac9-90a9-4fe11789804d''"

text \<open>The form and the options of the call in the disk-staged relay.\<close>

definition disk_request :: "world \<Rightarrow> fs \<Rightarrow> disk_file \<Rightarrow> axios_request" where
  "disk_request w files f =
     (let formData = append_part (new_FormData (form_boundary w))
                       ''resume'' (createReadStream files (path f)) (originalname f)
      in \<lparr>url = n8nUrl_disk, data = Form formData, headers = getHeaders formData,
          timeout = Some 30000, maxContentLength = Some Infinity,
          maxBodyLength = Some Infinity\<rparr>)"

text \<open>The replies of the \<^verbatim>\<open>catch\<close> block, chosen by \<^verbatim>\<open>error.response\<close> and \<^verbatim>\<open>error.request\<close>.\<close>

definition disk_error_reply :: "world \<Rightarrow> js_error \<Rightarrow> http_reply" where
  "disk_error_reply w error =
     (case err_response error of
        Some r \<Rightarrow>
          res_status_json 502
            (JObj [(''success'', JBool False),
                   (''message'', JStr (''N8N Error: '' @ decimal (resp_status r) @ '' - ''
                                        @ JSON_stringify w (resp_data r)))])
      | None \<Rightarrow>
          if err_request error then
            res_status_json 503
              (JObj [(''success'', JBool False), (''message'', JStr ''Cannot reach N8N service'')])
          else
            res_status_json 500
              (JObj [(''success'', JBool False), (''message'', JStr (err_message error))]))"

text \<open>
  The \<^verbatim>\<open>catch\<close> block: clean up, then answer. An exception thrown inside the block
  leaves the handler's promise rejected, with no reply: \<open>None\<close>.
\<close>

definition disk_catch ::
  "world \<Rightarrow> fs \<times> string list \<Rightarrow> axios_request list \<Rightarrow> string option \<Rightarrow> js_error
     \<Rightarrow> disk_result option" where
  "disk_catch w st made filePath error =
     (case cleanup st filePath of
        Inl e \<Rightarrow> None
      | Inr st' \<Rightarrow>
          Some \<lparr>reply = disk_error_reply w error, calls = made,
                files_after = fst st', unlinked = snd st'\<rparr>)"

text \<open>
  \<^verbatim>\<open>app.post("/api/upload", upload.single("resume"), async (req, res) => ...)\<close> of the
  disk-staged relay. On a resolved call the staged file is removed before the reply; an
  exception of that removal would enter the \<^verbatim>\<open>catch\<close> block like any other.
\<close>

definition upload_disk :: "world \<Rightarrow> fs \<Rightarrow> disk_file option \<Rightarrow> disk_result option" where
  "upload_disk w files file =
     (let filePath = map_option path file in
      case file of
        None \<Rightarrow>
          Some \<lparr>reply = res_status_json 400
                          (JObj [(''success'', JBool False), (''message'', JStr ''File missing'')]),
                calls = [], files_after = files, unlinked = []\<rparr>
      | Some f \<Rightarrow>
          (let rq = disk_request w files f in
           case axios_post w rq of
             Inl error \<Rightarrow> disk_catch w (files, []) [rq] filePath error
           | Inr response \<Rightarrow>
               (case cleanup (files, []) filePath of
                  Inl e \<Rightarrow> disk_catch w (files, []) [rq] filePath e
                | Inr st' \<Rightarrow>
                    Some \<lparr>reply = res_json
                                    (JObj [(''success'', JBool True),
                                           (''data'', resp_data response),
                                           (''message'', JStr ''File processed successfully'')]),
                          calls = [rq], files_after = fst st', unlinked = snd st'\<rparr>)))"

section \<open>Ingestion in front of the memory-buffered relay\<close>

text \<open>The file part of an incoming multipart request, in the field \<^verbatim>\<open>resume\<close>.\<close>

record incoming_file =
  in_name :: string
  in_type :: string
  in_bytes :: bytes

text \<open>\<^verbatim>\<open>limits: { fileSize: 10 * 1024 * 1024 }\<close>\<close>

definition fileSize :: nat where
  "fileSize = 10 * 1024 * 1024"

text \<open>
  Modelled from the spec: the ingestion layer \<^verbatim>\<open>upload.single("resume")\<close> is the multer
  library, which is not part of the repository's files. server.js configures it with
  memory storage and the \<open>fileSize\<close> limit; by the spec a file within the limit reaches
  the relay as \<^verbatim>\<open>req.file\<close>, a file exceeding it is rejected before the relay runs,
  and a request without a file part reaches the relay without \<^verbatim>\<open>req.file\<close>.
\<close>

definition multer_memory :: "incoming_file option \<Rightarrow> multer_error + memory_file option" where
  "multer_memory inc =
     (case inc of
        None \<Rightarrow> Inr None
      | Some i \<Rightarrow>
          if fileSize < length (in_bytes i) then Inl LIMIT_FILE_SIZE
          else Inr (Some \<lparr>originalname = in_name i, mimetype = in_type i,
                          file_size = length (in_bytes i), buffer = in_bytes i\<rparr>))"

text \<open>
  The route \<^verbatim>\<open>POST /api/upload\<close> of server.js: the ingestion middleware, then the
  handler. An error of the middleware goes to the framework's error handling, which the
  file leaves at its default.
\<close>

definition route_upload_memory :: "world \<Rightarrow> incoming_file option \<Rightarrow> relay_result" where
  "route_upload_memory w inc =
     (case multer_memory inc of
        Inl err \<Rightarrow> \<lparr>reply = default_error_handler w err, calls = []\<rparr>
      | Inr file \<Rightarrow> upload_memory w file)"

section \<open>The connection test (server.js)\<close>

definition endsWith :: "string \<Rightarrow> string \<Rightarrow> bool" where
  "endsWith s t = suffix t s"

text \<open>\<^verbatim>\<open>s.slice(0, -1)\<close>\<close>

definition slice_0_minus1 :: "string \<Rightarrow> string" where
  "slice_0_minus1 s = take (length s - 1) s"

text \<open>An environment variable inside \<^verbatim>\<open>URLSearchParams\<close>: an unset one reads "undefined".\<close>

definition env_text :: "world \<Rightarrow> string \<Rightarrow> string" where
  "env_text w k = (case env w k of None \<Rightarrow> ''undefined'' | Some v \<Rightarrow> v)"

text \<open>The message of the TypeError raised by reading property \<open>k\<close> of undefined or null.\<close>

definition cannot_read :: "string \<Rightarrow> string \<Rightarrow> js_error" where
  "cannot_read what k =
     plain_error (''Cannot read properties of '' @ what @ '' (reading '' @ [CHR 0x27] @ k
                  @ [CHR 0x27] @ '')'')"

text \<open>
  Reading a property that no prototype defines: a TypeError on undefined and null, the
  member of an object, undefined on everything else.
\<close>

definition get_prop :: "jsval \<Rightarrow> string \<Rightarrow> js_error + jsval" where
  "get_prop v k =
     (case v of
        JUndefined \<Rightarrow> Inl (cannot_read ''undefined'' k)
      | JNull \<Rightarrow> Inl (cannot_read ''null'' k)
      | JObj kvs \<Rightarrow> Inr (case map_of kvs k of None \<Rightarrow> JUndefined | Some x \<Rightarrow> x)
      | _ \<Rightarrow> Inr JUndefined)"

definition token_request :: "world \<Rightarrow> string \<Rightarrow> axios_request" where
  "token_request w loginUrl =
     (let baseUrl = (if endsWith loginUrl ''/'' then slice_0_minus1 loginUrl else loginUrl);
          tokenEndpoint = baseUrl @ ''/services/oauth2/token'';
          params = [(''grant_type'', ''client_credentials''),
                    (''client_id'', env_text w ''SF_CLIENT_ID''),
                    (''client_secret'', env_text w ''SF_CLIENT_SECRET'')]
      in \<lparr>url = tokenEndpoint, data = UrlEncoded params,
          headers = [(''Content-Type'', ''application/x-www-form-urlencoded'')],
          timeout = None, maxContentLength = None, maxBodyLength = None\<rparr>)"

text \<open>
  \<^verbatim>\<open>fetchSalesforceAccessToken\<close>: \<^verbatim>\<open>loginUrl.endsWith\<close> throws when
  \<^verbatim>\<open>SF_LOGIN_URL\<close> is unset; the \<^verbatim>\<open>catch\<close> logs and rethrows.
\<close>

definition fetchSalesforceAccessToken :: "world \<Rightarrow> js_error + jsval" where
  "fetchSalesforceAccessToken w =
     (case env w ''SF_LOGIN_URL'' of
        None \<Rightarrow> Inl (cannot_read ''undefined'' ''endsWith'')
      | Some loginUrl \<Rightarrow>
          (case axios_post w (token_request w loginUrl) of
             Inl error \<Rightarrow> Inl error
           | Inr response \<Rightarrow> Inr (resp_data response)))"

definition connection_failed :: "js_error \<Rightarrow> http_reply" where
  "connection_failed error =
     res_json (JObj [(''success'', JBool False),
                     (''message'', JStr (''Salesforce connection failed: '' @ err_message error)),
                     (''connected'', JBool False)])"

text \<open>\<^verbatim>\<open>app.get("/api/test-salesforce", async (req, res) => ...)\<close>\<close>

definition test_salesforce :: "world \<Rightarrow> http_reply" where
  "test_salesforce w =
     (case fetchSalesforceAccessToken w of
        Inl error \<Rightarrow> connection_failed error
      | Inr authResult \<Rightarrow>
          (case get_prop authResult ''instance_url'' of
             Inl error \<Rightarrow> connection_failed error
           | Inr instance_url \<Rightarrow>
               res_json (JObj [(''success'', JBool True),
                               (''message'', JStr ''Salesforce connection successful - ready to log data''),
                               (''connected'', JBool True),
                               (''instanceUrl'', instance_url),
                               (''canSave'', JBool False),
                               (''mode'', JStr ''logging'')])))"

section \<open>Reading a reply\<close>

text \<open>
  The member of a JSON object body as the client sees it: a member whose value is
  undefined is left out when the body is serialised.
\<close>

definition member :: "payload \<Rightarrow> string \<Rightarrow> jsval option" where
  "member b k =
     (case b of
        Json (JObj kvs) \<Rightarrow>
          (case map_of kvs k of
             None \<Rightarrow> None
           | Some x \<Rightarrow> if x = JUndefined then None else Some x)
      | _ \<Rightarrow> None)"

text \<open>Some string member of the body contains the text.\<close>

definition includes_text :: "payload \<Rightarrow> string \<Rightarrow> bool" where
  "includes_text b t =
     (case b of
        Json (JObj kvs) \<Rightarrow>
          list_ex (\<lambda>kv. case snd kv of JStr s \<Rightarrow> sublist t s | _ \<Rightarrow> False) kvs
      | _ \<Rightarrow> False)"

text \<open>The multipart parts of an outbound body: field name, bytes carried, file name.\<close>

definition form_files :: "post_data \<Rightarrow> (string \<times> bytes option \<times> string) list" where
  "form_files d =
     (case d of
        Form fd \<Rightarrow>
          map (\<lambda>p. (part_field p, source_bytes (part_source p), part_filename p)) (parts fd)
      | UrlEncoded kvs \<Rightarrow> [])"

section \<open>Example requests and surroundings\<close>

definition cv_pdf :: memory_file where
  "cv_pdf = \<lparr>originalname = ''cv.pdf'', mimetype = ''application/pdf'', file_size = 4,
             buffer = [0x25, 0x50, 0x44, 0x46]\<rparr>"

definition cv_staged :: disk_file where
  "cv_staged = \<lparr>originalname = ''cv.pdf'', mimetype = ''application/pdf'', file_size = 4,
                destination = ''uploads/'', filename = ''3f9a61c2'',
                path = ''uploads/3f9a61c2''\<rparr>"

definition staging_dir :: fs where
  "staging_dir = [''uploads/3f9a61c2'' \<mapsto> [0x25, 0x50, 0x44, 0x46]]"

definition oversized :: incoming_file where
  "oversized = \<lparr>in_name = ''big.pdf'', in_type = ''application/pdf'',
                in_bytes = replicate 10485761 0\<rparr>"

text \<open>
  A surrounding in which every outbound call has the given outcome. Its built-in error
  handler answers as Express's does outside production: status 500 and a web page
  showing the error's stack. Its \<^verbatim>\<open>JSON.stringify\<close> is right on null and stands in with
  an empty object elsewhere.
\<close>

definition surroundings :: "(string \<rightharpoonup> string) \<Rightarrow> js_error + axios_response \<Rightarrow> world" where
  "surroundings e outcome =
     \<lparr>env = e, axios_post = (\<lambda>rq. outcome), form_boundary = ''--------0123456789'',
      JSON_stringify = (\<lambda>v. case v of JNull \<Rightarrow> ''null'' | _ \<Rightarrow> ''{}''),
      default_error_handler =
        (\<lambda>err. \<lparr>rep_status = 500,
                 rep_body = Html ''<pre>MulterError: File too large<br> &nbsp; at ...</pre>''\<rparr>)\<rparr>"

definition timeout_error :: js_error where
  "timeout_error = \<lparr>err_message = ''timeout of 30000ms exceeded'',
                    err_code = Some ''ECONNABORTED'', err_response = None, err_request = True\<rparr>"

definition refused_error :: js_error where
  "refused_error = \<lparr>err_message = ''connect ECONNREFUSED 127.0.0.1:443'',
                    err_code = Some ''ECONNREFUSED'', err_response = None, err_request = True\<rparr>"

definition status_error :: js_error where
  "status_error = \<lparr>err_message = ''Request failed with status code 500'',
                   err_code = Some ''ERR_BAD_RESPONSE'',
                   err_response = Some \<lparr>resp_status = 500, resp_data = JNull\<rparr>,
                   err_request = True\<rparr>"

definition parsed_ok :: axios_response where
  "parsed_ok = \<lparr>resp_status = 200, resp_data = JObj [(''parsed'', JBool True)]\<rparr>"

definition token_ok :: axios_response where
  "token_ok = \<lparr>resp_status = 200,
               resp_data = JObj [(''access_token'', JStr ''00Dxx''),
                                 (''instance_url'', JStr ''https://example.my.salesforce.com'')]\<rparr>"

definition login_env :: "string \<rightharpoonup> string" where
  "login_env = [''SF_LOGIN_URL'' \<mapsto> ''https://login.salesforce.com/'']"

section \<open>Properties\<close>

subsection \<open>Auxiliary facts\<close>

text \<open>The guarded unlink never throws: it removes the file when there is one to remove.\<close>

lemma cleanup_eq:
  "cleanup st filePath =
     Inr (case filePath of
            None \<Rightarrow> st
          | Some p \<Rightarrow>
              if p \<noteq> [] \<and> fst st p \<noteq> None then ((fst st)(p := None), snd st @ [p]) else st)"
  by (simp add: cleanup_def existsSync_def unlinkSync_def split: option.splits)

text \<open>Hence the disk-staged handler always replies when a file is present.\<close>

lemma upload_disk_Some:
  "upload_disk w files (Some g) =
     (let rq = disk_request w files g;
          st' = (if path g \<noteq> [] \<and> files (path g) \<noteq> None
                 then (files(path g := None), [path g]) else (files, []))
      in Some \<lparr>reply = (case axios_post w rq of
                          Inl error \<Rightarrow> disk_error_reply w error
                        | Inr response \<Rightarrow>
                            res_json (JObj [(''success'', JBool True),
                                            (''data'', resp_data response),
                                            (''message'', JStr ''File processed successfully'')])),
                calls = [rq], files_after = fst st', unlinked = snd st'\<rparr>)"
  by (simp add: upload_disk_def disk_catch_def cleanup_eq Let_def split: sum.splits)

lemma decimal_500: "decimal 500 = ''500''"
  by code_simp

lemma memory_request_form:
  "form_files (data (memory_request w f)) = [(''resume'', Some (buffer f), originalname f)]"
  by (simp add: memory_request_def form_files_def append_part_def new_FormData_def Let_def)

lemma disk_request_form:
  "form_files (data (disk_request w files g)) = [(''resume'', files (path g), originalname g)]"
  by (simp add: disk_request_def form_files_def append_part_def new_FormData_def
        createReadStream_def Let_def)

lemma includes_text_member:
  assumes "map_of kvs k = Some (JStr (pre @ t @ post))"
  shows "includes_text (Json (JObj kvs)) t"
proof -
  from assms have "(k, JStr (pre @ t @ post)) \<in> set kvs"
    by (rule map_of_SomeD)
  moreover have "sublist t (pre @ t @ post)"
    by (rule sublist_appendI)
  ultimately show ?thesis
    by (auto simp: includes_text_def list_ex_iff
             intro!: bexI [where x = "(k, JStr (pre @ t @ post))"])
qed

lemma surroundings_post: "axios_post (surroundings e outcome) rq = outcome"
  by (simp add: surroundings_def)

subsection \<open>A request without a file\<close>

text \<open>
  C2, as the two handlers implement it. Without \<^verbatim>\<open>req.file\<close> both relays answer 400 and
  make no outbound call. The body is \<^verbatim>\<open>{error: "File missing"}\<close> in the memory-buffered
  relay and \<^verbatim>\<open>{success: false, message: "File missing"}\<close> in the disk-staged relay, which
  also leaves the file system as it was and unlinks nothing.
\<close>

theorem C2_missing_file:
  "reply (upload_memory w None) =
     \<lparr>rep_status = 400, rep_body = Json (JObj [(''error'', JStr ''File missing'')])\<rparr>
   \<and> calls (upload_memory w None) = []
   \<and> upload_disk w files None =
       Some \<lparr>reply = \<lparr>rep_status = 400,
                       rep_body = Json (JObj [(''success'', JBool False),
                                              (''message'', JStr ''File missing'')])\<rparr>,
             calls = [], files_after = files, unlinked = []\<rparr>"
  by (simp add: upload_memory_def upload_disk_def res_status_json_def)

text \<open>
  C2 as stated asks for the body \<^verbatim>\<open>{error: "File missing"}\<close> in both relays; the
  disk-staged relay answers with a different body.
\<close>

theorem C2_disk_body_counterexample:
  "map_option (rep_body \<circ> reply)
       (upload_disk (surroundings Map.empty (Inl refused_error)) staging_dir None)
     \<noteq> Some (Json (JObj [(''error'', JStr ''File missing'')]))"
  by (simp add: upload_disk_def res_status_json_def)

subsection \<open>The outbound request\<close>

text \<open>
  C3. With a file present, each relay makes exactly one outbound call, to its fixed URL,
  and the multipart body has the single part \<^verbatim>\<open>resume\<close>, carrying the file's original
  name and its bytes: the buffer in the memory-buffered relay, the content staged at
  \<^verbatim>\<open>req.file.path\<close> in the disk-staged relay. This holds whatever the outcome of the
  call.
\<close>

theorem C3_one_outbound_post:
  "calls (upload_memory w (Some f)) = [memory_request w f]
   \<and> url (memory_request w f) = n8nUrl_memory
   \<and> form_files (data (memory_request w f)) = [(''resume'', Some (buffer f), originalname f)]
   \<and> map_option calls (upload_disk w files (Some g)) = Some [disk_request w files g]
   \<and> url (disk_request w files g) = n8nUrl_disk
   \<and> form_files (data (disk_request w files g)) = [(''resume'', files (path g), originalname g)]"
proof -
  have m: "calls (upload_memory w (Some f)) = [memory_request w f]"
    by (simp add: upload_memory_def Let_def split: sum.splits)
  have mu: "url (memory_request w f) = n8nUrl_memory"
    by (simp add: memory_request_def Let_def)
  have d: "map_option calls (upload_disk w files (Some g)) = Some [disk_request w files g]"
    by (simp add: upload_disk_Some Let_def)
  have du: "url (disk_request w files g) = n8nUrl_disk"
    by (simp add: disk_request_def Let_def)
  show ?thesis
    using m mu memory_request_form d du disk_request_form by blast
qed

subsection \<open>The downstream service answers\<close>

text \<open>
  C4. When the outbound call resolves (the HTTP client resolves on a 2xx status), the
  memory-buffered relay answers 200 with the downstream body itself, and the disk-staged
  relay answers 200 with the downstream body wrapped as
  \<^verbatim>\<open>{success: true, data, message: "File processed successfully"}\<close>.
\<close>

theorem C4_success_passthrough:
  "(axios_post w (memory_request w f) = Inr r \<longrightarrow>
      reply (upload_memory w (Some f)) = \<lparr>rep_status = 200, rep_body = Json (resp_data r)\<rparr>)
   \<and> (axios_post w (disk_request w files g) = Inr r' \<longrightarrow>
      map_option reply (upload_disk w files (Some g)) =
        Some \<lparr>rep_status = 200,
              rep_body = Json (JObj [(''success'', JBool True), (''data'', resp_data r'),
                                     (''message'', JStr ''File processed successfully'')])\<rparr>)"
  by (simp add: upload_memory_def upload_disk_Some Let_def res_json_def res_status_json_def)

theorem C4_success_passthrough_witness:
  "axios_post (surroundings Map.empty (Inr parsed_ok))
       (memory_request (surroundings Map.empty (Inr parsed_ok)) cv_pdf) = Inr parsed_ok
   \<and> reply (upload_memory (surroundings Map.empty (Inr parsed_ok)) (Some cv_pdf)) =
       \<lparr>rep_status = 200, rep_body = Json (JObj [(''parsed'', JBool True)])\<rparr>
   \<and> axios_post (surroundings Map.empty (Inr parsed_ok))
       (disk_request (surroundings Map.empty (Inr parsed_ok)) staging_dir cv_staged)
       = Inr parsed_ok
   \<and> map_option reply
       (upload_disk (surroundings Map.empty (Inr parsed_ok)) staging_dir (Some cv_staged)) =
       Some \<lparr>rep_status = 200,
             rep_body = Json (JObj [(''success'', JBool True),
                                    (''data'', JObj [(''parsed'', JBool True)]),
                                    (''message'', JStr ''File processed successfully'')])\<rparr>"
proof -
  note a = surroundings_post [of Map.empty "Inr parsed_ok"]
  from C4_success_passthrough [of "surroundings Map.empty (Inr parsed_ok)" cv_pdf parsed_ok
         staging_dir cv_staged parsed_ok] a
  show ?thesis by (simp add: parsed_ok_def)
qed

text \<open>
  C5. When the outbound call is rejected with a response attached (the HTTP client rejects
  on a status outside 2xx and attaches the response; such an error does not carry the
  timeout code), both relays answer 502. The memory-buffered relay's body names the
  downstream status in \<^verbatim>\<open>error\<close> and carries the downstream body as \<^verbatim>\<open>details\<close>; the
  disk-staged relay's \<^verbatim>\<open>message\<close> contains the downstream status and the downstream body
  as \<^verbatim>\<open>JSON.stringify\<close> renders it.
\<close>

theorem C5_downstream_error:
  "(axios_post w (memory_request w f) = Inl e \<and> err_response e = Some r
      \<and> err_code e \<noteq> Some ''ECONNABORTED'' \<longrightarrow>
      rep_status (reply (upload_memory w (Some f))) = 502
      \<and> rep_body (reply (upload_memory w (Some f))) =
          Json (JObj [(''error'', JStr (''N8N Error: '' @ decimal (resp_status r))),
                      (''details'', resp_data r)])
      \<and> includes_text (rep_body (reply (upload_memory w (Some f)))) (decimal (resp_status r)))
   \<and> (axios_post w (disk_request w files g) = Inl e' \<and> err_response e' = Some r' \<longrightarrow>
      (\<exists>res. upload_disk w files (Some g) = Some res
         \<and> rep_status (reply res) = 502
         \<and> rep_body (reply res) =
             Json (JObj [(''success'', JBool False),
                         (''message'', JStr (''N8N Error: '' @ decimal (resp_status r') @ '' - ''
                                              @ JSON_stringify w (resp_data r')))])
         \<and> includes_text (rep_body (reply res)) (decimal (resp_status r'))
         \<and> includes_text (rep_body (reply res)) (JSON_stringify w (resp_data r'))))"
proof -
  have t1: "includes_text
      (Json (JObj [(''error'', JStr (''N8N Error: '' @ decimal (resp_status r))),
                   (''details'', resp_data r)])) (decimal (resp_status r))"
    using includes_text_member [of _ "''error''" "''N8N Error: ''" "decimal (resp_status r)" "[]"]
    by simp
  have t2: "includes_text
      (Json (JObj [(''success'', JBool False),
                   (''message'', JStr (''N8N Error: '' @ decimal (resp_status r') @ '' - ''
                                        @ JSON_stringify w (resp_data r')))]))
      (decimal (resp_status r'))"
    using includes_text_member [of _ "''message''" "''N8N Error: ''" "decimal (resp_status r')"
            "'' - '' @ JSON_stringify w (resp_data r')"]
    by simp
  have t3: "includes_text
      (Json (JObj [(''success'', JBool False),
                   (''message'', JStr (''N8N Error: '' @ decimal (resp_status r') @ '' - ''
                                        @ JSON_stringify w (resp_data r')))]))
      (JSON_stringify w (resp_data r'))"
    using includes_text_member [of _ "''message''"
            "''N8N Error: '' @ decimal (resp_status r') @ '' - ''"
            "JSON_stringify w (resp_data r')" "[]"]
    by simp
  have m: "axios_post w (memory_request w f) = Inl e \<and> err_response e = Some r
      \<and> err_code e \<noteq> Some ''ECONNABORTED'' \<longrightarrow>
      reply (upload_memory w (Some f)) =
        \<lparr>rep_status = 502,
         rep_body = Json (JObj [(''error'', JStr (''N8N Error: '' @ decimal (resp_status r))),
                      (''details'', resp_data r)])\<rparr>"
    by (simp add: upload_memory_def memory_catch_def res_status_json_def Let_def)
  have d: "axios_post w (disk_request w files g) = Inl e' \<and> err_response e' = Some r' \<longrightarrow>
      map_option reply (upload_disk w files (Some g)) =
        Some \<lparr>rep_status = 502,
          rep_body = Json (JObj [(''success'', JBool False),
                         (''message'', JStr (''N8N Error: '' @ decimal (resp_status r') @ '' - ''
                                              @ JSON_stringify w (resp_data r')))])\<rparr>"
    by (simp add: upload_disk_Some disk_error_reply_def res_status_json_def Let_def)
  from m t1 have M: "axios_post w (memory_request w f) = Inl e \<and> err_response e = Some r
      \<and> err_code e \<noteq> Some ''ECONNABORTED'' \<longrightarrow>
      rep_status (reply (upload_memory w (Some f))) = 502
      \<and> rep_body (reply (upload_memory w (Some f))) =
          Json (JObj [(''error'', JStr (''N8N Error: '' @ decimal (resp_status r))),
                      (''details'', resp_data r)])
      \<and> includes_text (rep_body (reply (upload_memory w (Some f)))) (decimal (resp_status r))"
    by simp
  from d t2 t3 have D: "axios_post w (disk_request w files g) = Inl e' \<and> err_response e' = Some r' \<longrightarrow>
      (\<exists>res. upload_disk w files (Some g) = Some res
         \<and> rep_status (reply res) = 502
         \<and> rep_body (reply res) =
             Json (JObj [(''success'', JBool False),
                         (''message'', JStr (''N8N Error: '' @ decimal (resp_status r') @ '' - ''
                                              @ JSON_stringify w (resp_data r')))])
         \<and> includes_text (rep_body (reply res)) (decimal (resp_status r'))
         \<and> includes_text (rep_body (reply res)) (JSON_stringify w (resp_data r')))"
    by auto
  from M D show ?thesis by blast
qed

theorem C5_downstream_error_witness:
  "axios_post (surroundings Map.empty (Inl status_error))
       (memory_request (surroundings Map.empty (Inl status_error)) cv_pdf) = Inl status_error
   \<and> err_response status_error = Some \<lparr>resp_status = 500, resp_data = JNull\<rparr>
   \<and> err_code status_error \<noteq> Some ''ECONNABORTED''
   \<and> reply (upload_memory (surroundings Map.empty (Inl status_error)) (Some cv_pdf)) =
       \<lparr>rep_status = 502,
        rep_body = Json (JObj [(''error'', JStr ''N8N Error: 500''), (''details'', JNull)])\<rparr>
   \<and> includes_text
       (rep_body (reply (upload_memory (surroundings Map.empty (Inl status_error)) (Some cv_pdf))))
       ''500''
   \<and> (\<exists>res. upload_disk (surroundings Map.empty (Inl status_error)) staging_dir (Some cv_staged)
              = Some res
         \<and> reply res =
             \<lparr>rep_status = 502,
              rep_body = Json (JObj [(''success'', JBool False),
                                     (''message'', JStr ''N8N Error: 500 - null'')])\<rparr>
         \<and> includes_text (rep_body (reply res)) ''500''
         \<and> includes_text (rep_body (reply res)) ''null'')"
proof -
  note a = surroundings_post [of Map.empty "Inl status_error"]
  have s: "JSON_stringify (surroundings Map.empty (Inl status_error)) JNull = ''null''"
    by (simp add: surroundings_def)
  have h: "err_response status_error = Some \<lparr>resp_status = 500, resp_data = JNull\<rparr>"
       "err_code status_error \<noteq> Some ''ECONNABORTED''"
    by (simp_all add: status_error_def)
  from C5_downstream_error [of "surroundings Map.empty (Inl status_error)" cv_pdf status_error
         "\<lparr>resp_status = 500, resp_data = JNull\<rparr>" staging_dir cv_staged status_error
         "\<lparr>resp_status = 500, resp_data = JNull\<rparr>"] a h s
  show ?thesis by (auto simp: decimal_500)
qed

text \<open>
  C6, as the two handlers implement it. When the outbound call is rejected with no response
  attached, the request object present, and (memory-buffered relay) not with the timeout
  code, both relays answer 503. The body is \<^verbatim>\<open>{error: "Cannot reach N8N service"}\<close> in the
  memory-buffered relay and \<^verbatim>\<open>{success: false, message: "Cannot reach N8N service"}\<close> in
  the disk-staged relay.
\<close>

theorem C6_unreachable:
  "(axios_post w (memory_request w f) = Inl e \<and> err_response e = None \<and> err_request e
      \<and> err_code e \<noteq> Some ''ECONNABORTED'' \<longrightarrow>
      reply (upload_memory w (Some f)) =
        \<lparr>rep_status = 503,
         rep_body = Json (JObj [(''error'', JStr ''Cannot reach N8N service'')])\<rparr>)
   \<and> (axios_post w (disk_request w files g) = Inl e' \<and> err_response e' = None \<and> err_request e'
        \<longrightarrow>
      map_option reply (upload_disk w files (Some g)) =
        Some \<lparr>rep_status = 503,
              rep_body = Json (JObj [(''success'', JBool False),
                                     (''message'', JStr ''Cannot reach N8N service'')])\<rparr>)"
  by (simp add: upload_memory_def memory_catch_def upload_disk_Some disk_error_reply_def
        res_status_json_def Let_def)

theorem C6_unreachable_witness:
  "axios_post (surroundings Map.empty (Inl refused_error))
       (memory_request (surroundings Map.empty (Inl refused_error)) cv_pdf) = Inl refused_error
   \<and> err_response refused_error = None \<and> err_request refused_error
   \<and> err_code refused_error \<noteq> Some ''ECONNABORTED''
   \<and> reply (upload_memory (surroundings Map.empty (Inl refused_error)) (Some cv_pdf)) =
        \<lparr>rep_status = 503,
         rep_body = Json (JObj [(''error'', JStr ''Cannot reach N8N service'')])\<rparr>
   \<and> map_option reply
        (upload_disk (surroundings Map.empty (Inl refused_error)) staging_dir (Some cv_staged)) =
        Some \<lparr>rep_status = 503,
              rep_body = Json (JObj [(''success'', JBool False),
                                     (''message'', JStr ''Cannot reach N8N service'')])\<rparr>"
proof -
  note a = surroundings_post [of Map.empty "Inl refused_error"]
  have h: "err_response refused_error = None" "err_request refused_error"
       "err_code refused_error \<noteq> Some ''ECONNABORTED''"
    by (simp_all add: refused_error_def)
  from C6_unreachable [of "surroundings Map.empty (Inl refused_error)" cv_pdf refused_error
         staging_dir cv_staged refused_error] a h
  show ?thesis by simp
qed

text \<open>
  C6 as stated asks for the body \<^verbatim>\<open>{error: "Cannot reach downstream service"}\<close>; on a
  refused connection the memory-buffered relay answers 503 with another text.
\<close>

theorem C6_body_counterexample:
  "rep_status (reply (upload_memory (surroundings Map.empty (Inl refused_error)) (Some cv_pdf)))
     = 503
   \<and> rep_body (reply (upload_memory (surroundings Map.empty (Inl refused_error)) (Some cv_pdf)))
     \<noteq> Json (JObj [(''error'', JStr ''Cannot reach downstream service'')])"
  by (simp add: upload_memory_def memory_catch_def surroundings_def refused_error_def
        res_status_json_def Let_def)

text \<open>
  C7. In the disk-staged relay, when a file was staged for the request (something exists
  at the non-empty \<^verbatim>\<open>req.file.path\<close>), the handler replies, whatever the outcome of the
  outbound call, having called \<^verbatim>\<open>fs.unlinkSync\<close> exactly once, on that path; afterwards
  the path is gone and every other file is as before. When nothing exists at the path any
  more, the handler replies without calling \<^verbatim>\<open>fs.unlinkSync\<close> at all.
\<close>

theorem C7_staged_file_removed_once:
  "(path g \<noteq> [] \<and> files (path g) \<noteq> None \<longrightarrow>
      (\<exists>res. upload_disk w files (Some g) = Some res
         \<and> unlinked res = [path g]
         \<and> files_after res = files(path g := None)))
   \<and> (files (path g) = None \<longrightarrow>
      (\<exists>res. upload_disk w files (Some g) = Some res
         \<and> unlinked res = []
         \<and> files_after res = files))"
  by (simp add: upload_disk_Some Let_def)

theorem C7_staged_file_removed_once_witness:
  "path cv_staged \<noteq> [] \<and> staging_dir (path cv_staged) \<noteq> None
   \<and> (\<exists>res. upload_disk (surroundings Map.empty (Inl timeout_error)) staging_dir (Some cv_staged)
              = Some res
         \<and> unlinked res = [''uploads/3f9a61c2'']
         \<and> files_after res = Map.empty)
   \<and> Map.empty (path cv_staged) = (None :: bytes option)
   \<and> (\<exists>res. upload_disk (surroundings Map.empty (Inr parsed_ok)) Map.empty (Some cv_staged)
              = Some res
         \<and> unlinked res = []
         \<and> files_after res = Map.empty)"
proof -
  have h: "path cv_staged \<noteq> []" "staging_dir (path cv_staged) \<noteq> None"
    by (simp_all add: cv_staged_def staging_dir_def)
  have e: "staging_dir(path cv_staged := None) = Map.empty"
    by (simp add: cv_staged_def staging_dir_def)
  from C7_staged_file_removed_once
         [of cv_staged staging_dir "surroundings Map.empty (Inl timeout_error)"]
       C7_staged_file_removed_once
         [of cv_staged Map.empty "surroundings Map.empty (Inr parsed_ok)"] h e
  show ?thesis by (simp add: cv_staged_def)
qed

text \<open>
  C8, as the two handlers implement it. The outbound call is made with a timeout of
  300000 ms in the memory-buffered relay and 30000 ms in the disk-staged relay, whatever
  the environment holds: both are literals of the source. The disk-staged relay passes
  \<^verbatim>\<open>maxContentLength: Infinity\<close> and \<^verbatim>\<open>maxBodyLength: Infinity\<close>; the memory-buffered
  relay passes neither option.
\<close>

theorem C8_dispatch_options:
  "calls (upload_memory w (Some f)) = [memory_request w f]
   \<and> timeout (memory_request w f) = Some 300000
   \<and> maxContentLength (memory_request w f) = None
   \<and> maxBodyLength (memory_request w f) = None
   \<and> map_option calls (upload_disk w files (Some g)) = Some [disk_request w files g]
   \<and> timeout (disk_request w files g) = Some 30000
   \<and> maxContentLength (disk_request w files g) = Some Infinity
   \<and> maxBodyLength (disk_request w files g) = Some Infinity"
  by (simp add: upload_memory_def upload_disk_Some memory_request_def disk_request_def Let_def
           split: sum.splits)

text \<open>
  C8 as stated calls the timeouts configurable and the body size of both relays
  unlimited. With a timeout set in the environment the calls still carry 300000 ms and
  30000 ms, and the memory-buffered relay's call carries no body-size option.
\<close>

theorem C8_not_configurable_counterexample:
  "map timeout
     (calls (upload_memory (surroundings [''UPLOAD_TIMEOUT_MS'' \<mapsto> ''1000''] (Inr parsed_ok))
               (Some cv_pdf))) = [Some 300000]
   \<and> map_option (map timeout \<circ> calls)
       (upload_disk (surroundings [''UPLOAD_TIMEOUT_MS'' \<mapsto> ''1000''] (Inr parsed_ok))
          staging_dir (Some cv_staged)) = Some [Some 30000]
   \<and> map maxBodyLength
       (calls (upload_memory (surroundings [''UPLOAD_TIMEOUT_MS'' \<mapsto> ''1000''] (Inr parsed_ok))
                 (Some cv_pdf))) = [None]"
  by (simp add: upload_memory_def upload_disk_Some memory_request_def disk_request_def Let_def
        surroundings_post)

subsection \<open>Timeout, oversized upload, connection test\<close>

lemma fileSize_bytes: "fileSize = 10485760"
  by (simp add: fileSize_def)

text \<open>The disk-staged relay has no reply with status 504.\<close>

lemma upload_disk_statuses:
  assumes "upload_disk w files upl = Some res"
  shows "rep_status (reply res) \<in> {200, 400, 500, 502, 503}"
proof (cases upl)
  case None
  with assms show ?thesis
    by (auto simp: upload_disk_def res_status_json_def)
next
  case (Some g)
  with assms show ?thesis
    by (auto simp: upload_disk_Some Let_def disk_error_reply_def res_status_json_def
          res_json_def split: sum.splits option.splits if_splits)
qed

text \<open>The memory-buffered relay answers a rejection that carries the timeout code with 504.\<close>

lemma upload_memory_timeout:
  assumes "axios_post w (memory_request w f) = Inl e" and "err_code e = Some ''ECONNABORTED''"
  shows "reply (upload_memory w (Some f)) =
           \<lparr>rep_status = 504,
            rep_body = Json (JObj [(''error'',
                         JStr ''Request timeout - server took too long to respond'')])\<rparr>"
  using assms by (simp add: upload_memory_def memory_catch_def res_status_json_def Let_def)

text \<open>
  C1 at a timeout of the outbound call (the rejection carries the code
  \<^verbatim>\<open>ECONNABORTED\<close> and the request, and no response). The memory-buffered relay answers
  504. The disk-staged relay removes the staged file, but its \<^verbatim>\<open>catch\<close> block has no
  branch for the timeout code and answers 503, the reply of an unreachable service.
\<close>

theorem C1_timeout_replies:
  "rep_status (reply (upload_memory (surroundings Map.empty (Inl timeout_error)) (Some cv_pdf)))
     = 504
   \<and> upload_disk (surroundings Map.empty (Inl timeout_error)) staging_dir (Some cv_staged) =
       Some \<lparr>reply = \<lparr>rep_status = 503,
                       rep_body = Json (JObj [(''success'', JBool False),
                                              (''message'', JStr ''Cannot reach N8N service'')])\<rparr>,
             calls = [disk_request (surroundings Map.empty (Inl timeout_error)) staging_dir
                        cv_staged],
             files_after = Map.empty, unlinked = [''uploads/3f9a61c2'']\<rparr>"
proof -
  have e: "staging_dir(path cv_staged := None) = Map.empty"
    by (simp add: cv_staged_def staging_dir_def)
  have p: "path cv_staged = ''uploads/3f9a61c2''" "staging_dir ''uploads/3f9a61c2'' \<noteq> None"
    by (simp_all add: cv_staged_def staging_dir_def)
  have m: "rep_status (reply (upload_memory (surroundings Map.empty (Inl timeout_error))
             (Some cv_pdf))) = 504"
    by (simp add: upload_memory_def surroundings_post memory_catch_def timeout_error_def
          res_status_json_def Let_def)
  have d: "disk_error_reply (surroundings Map.empty (Inl timeout_error)) timeout_error =
             \<lparr>rep_status = 503,
              rep_body = Json (JObj [(''success'', JBool False),
                                     (''message'', JStr ''Cannot reach N8N service'')])\<rparr>"
    by (simp add: disk_error_reply_def timeout_error_def res_status_json_def)
  show ?thesis
    using e by (simp add: m upload_disk_Some Let_def surroundings_post d p)
qed

text \<open>
  C9 at a file above the limit. The route of the memory-buffered relay does not run the
  handler and makes no outbound call; the reply is the one the framework's built-in
  error handler gives for the ingestion error, since server.js registers no error
  handler of its own.
\<close>

theorem C9_oversized_upload:
  assumes "fileSize < length (in_bytes i)"
  shows "route_upload_memory w (Some i) =
           \<lparr>reply = default_error_handler w LIMIT_FILE_SIZE, calls = []\<rparr>"
  using assms by (simp add: route_upload_memory_def multer_memory_def)

theorem C9_oversized_upload_witness:
  "fileSize < length (in_bytes oversized)
   \<and> route_upload_memory (surroundings Map.empty (Inr parsed_ok)) (Some oversized) =
       \<lparr>reply = \<lparr>rep_status = 500,
                 rep_body = Html ''<pre>MulterError: File too large<br> &nbsp; at ...</pre>''\<rparr>,
        calls = []\<rparr>"
proof -
  have h: "fileSize < length (in_bytes oversized)"
    by (simp add: oversized_def fileSize_def)
  from C9_oversized_upload [OF h, of "surroundings Map.empty (Inr parsed_ok)"] h
  show ?thesis by (simp add: surroundings_def)
qed

text \<open>
  C10. The connection test always answers 200. When the token exchange fails, the body is
  \<^verbatim>\<open>{success: false, message, connected: false}\<close>, with the error's message and no
  \<^verbatim>\<open>instanceUrl\<close> member. When it succeeds with an object, the body is
  \<^verbatim>\<open>{success: true, message, connected: true, instanceUrl, canSave: false, mode}\<close>, where
  \<^verbatim>\<open>instanceUrl\<close> is the object's \<^verbatim>\<open>instance_url\<close>.
\<close>

theorem C10_connection_test:
  "rep_status (test_salesforce w) = 200
   \<and> (fetchSalesforceAccessToken w = Inl e \<longrightarrow>
        rep_body (test_salesforce w) =
          Json (JObj [(''success'', JBool False),
                      (''message'', JStr (''Salesforce connection failed: '' @ err_message e)),
                      (''connected'', JBool False)])
        \<and> member (rep_body (test_salesforce w)) ''instanceUrl'' = None)
   \<and> (fetchSalesforceAccessToken w = Inr (JObj kvs) \<longrightarrow>
        rep_body (test_salesforce w) =
          Json (JObj [(''success'', JBool True),
                      (''message'', JStr ''Salesforce connection successful - ready to log data''),
                      (''connected'', JBool True),
                      (''instanceUrl'', case map_of kvs ''instance_url'' of
                                          None \<Rightarrow> JUndefined | Some x \<Rightarrow> x),
                      (''canSave'', JBool False),
                      (''mode'', JStr ''logging'')]))"
proof -
  have s: "rep_status (test_salesforce w) = 200"
    by (simp add: test_salesforce_def connection_failed_def res_json_def res_status_json_def
             split: sum.splits)
  have f: "fetchSalesforceAccessToken w = Inl e \<longrightarrow>
        rep_body (test_salesforce w) =
          Json (JObj [(''success'', JBool False),
                      (''message'', JStr (''Salesforce connection failed: '' @ err_message e)),
                      (''connected'', JBool False)])
        \<and> member (rep_body (test_salesforce w)) ''instanceUrl'' = None"
    by (simp add: test_salesforce_def connection_failed_def res_json_def res_status_json_def
          member_def)
  have t: "fetchSalesforceAccessToken w = Inr (JObj kvs) \<longrightarrow>
        rep_body (test_salesforce w) =
          Json (JObj [(''success'', JBool True),
                      (''message'', JStr ''Salesforce connection successful - ready to log data''),
                      (''connected'', JBool True),
                      (''instanceUrl'', case map_of kvs ''instance_url'' of
                                          None \<Rightarrow> JUndefined | Some x \<Rightarrow> x),
                      (''canSave'', JBool False),
                      (''mode'', JStr ''logging'')])"
    by (simp add: test_salesforce_def get_prop_def res_json_def res_status_json_def)
  from s f t show ?thesis by blast
qed

lemma fetch_ok:
  "fetchSalesforceAccessToken (surroundings login_env (Inr token_ok)) = Inr (resp_data token_ok)"
  by (simp add: fetchSalesforceAccessToken_def surroundings_def login_env_def)

lemma fetch_refused:
  "fetchSalesforceAccessToken (surroundings login_env (Inl refused_error)) = Inl refused_error"
  by (simp add: fetchSalesforceAccessToken_def surroundings_def login_env_def)

lemma token_request_url:
  "url (token_request w ''https://login.salesforce.com/'') =
     ''https://login.salesforce.com/services/oauth2/token''"
  by (simp add: token_request_def endsWith_def slice_0_minus1_def Let_def suffix_def)

theorem C10_connection_test_witness:
  "fetchSalesforceAccessToken (surroundings login_env (Inl refused_error)) = Inl refused_error
   \<and> test_salesforce (surroundings login_env (Inl refused_error)) =
       \<lparr>rep_status = 200,
        rep_body = Json (JObj [(''success'', JBool False),
                      (''message'', JStr ''Salesforce connection failed: connect ECONNREFUSED 127.0.0.1:443''),
                      (''connected'', JBool False)])\<rparr>
   \<and> member (rep_body (test_salesforce (surroundings login_env (Inl refused_error))))
        ''instanceUrl'' = None
   \<and> fetchSalesforceAccessToken (surroundings login_env (Inr token_ok)) =
        Inr (JObj [(''access_token'', JStr ''00Dxx''),
                   (''instance_url'', JStr ''https://example.my.salesforce.com'')])
   \<and> test_salesforce (surroundings login_env (Inr token_ok)) =
       \<lparr>rep_status = 200,
        rep_body = Json (JObj [(''success'', JBool True),
                      (''message'', JStr ''Salesforce connection successful - ready to log data''),
                      (''connected'', JBool True),
                      (''instanceUrl'', JStr ''https://example.my.salesforce.com''),
                      (''canSave'', JBool False),
                      (''mode'', JStr ''logging'')])\<rparr>"
proof -
  have r: "(x = \<lparr>rep_status = n, rep_body = b\<rparr>) = (rep_status x = n \<and> rep_body x = b)"
    for x :: http_reply and n b
    by auto
  have m: "err_message refused_error = ''connect ECONNREFUSED 127.0.0.1:443''"
    by (simp add: refused_error_def)
  from C10_connection_test [of "surroundings login_env (Inl refused_error)" refused_error "[]"]
       C10_connection_test [of "surroundings login_env (Inr token_ok)" refused_error
         "[(''access_token'', JStr ''00Dxx''),
           (''instance_url'', JStr ''https://example.my.salesforce.com'')]"]
       fetch_ok fetch_refused
  show ?thesis
    by (simp add: r m token_ok_def member_def)
qed

end
